theory Spec2Isabelle
  imports Main
begin

section \<open>Initial project analysis of the init command (s0-analyzeProject.ts)\<close>

text \<open>
  The module resolves the project name, the environment name and the editor of an
  \<open>amplify init\<close> run, and assembles them into \<open>context.exeInfo\<close>. It reads
  persisted state, prints, emits telemetry, asks the user and may end the process. The
  embedding makes each of these explicit: persisted state and the user's answers are
  fields of a \<open>world\<close>, what the module does to the outside is a list of events in
  the order of the calls, and an exception or the end of the process is the left summand
  of the result.
\<close>

subsection \<open>Input parameters and the execution context\<close>

text \<open>
  \<open>context.exeInfo.inputParams\<close>: the optional \<open>amplify\<close> object with its
  optional string properties, and the \<open>yes\<close> flag. A property that is absent
  (\<open>undefined\<close>) is \<open>None\<close>.
\<close>

record amplify_params =
  ap_projectName :: "string option"
  ap_defaultEditor :: "string option"
  ap_envName :: "string option"

record input_params =
  ip_amplify :: "amplify_params option"
  ip_yes :: bool

text \<open>\<open>context.parameters.options\<close>; the flags are read for truthiness only.\<close>

record cli_options =
  opt_app :: bool
  opt_quickstart :: bool
  opt_forcePush :: bool
  opt_frontend :: "string option"

text \<open>
  The project config (\<open>projectName\<close>, \<open>version\<close>, \<open>frontend\<close>) and the local
  environment info (\<open>projectPath\<close>, \<open>defaultEditor\<close>, \<open>envName\<close>), both as
  persisted files and as properties of \<open>exeInfo\<close>.
\<close>

record project_config =
  pc_projectName :: string
  pc_version :: string
  pc_frontend :: "string option"

record local_env_info =
  le_projectPath :: "string option"
  le_defaultEditor :: "string option"
  le_envName :: "string option"

text \<open>
  The team provider info is the object that parsing the JSON file yields: its own
  properties, each with a JSON value. The CLI stores an object under each environment
  name, but the file may hold any value. A number stands for the parsed number and
  counts only by being zero or not.
\<close>

datatype js_value =
  JNull
| JBool bool
| JNumber int
| JString string
| JArray "js_value list"
| JObject "(string \<times> js_value) list"

type_synonym team_provider_info = "string \<rightharpoonup> js_value"

text \<open>
  \<open>context.exeInfo\<close>. Everything but \<open>inputParams\<close> is a property that the
  module assigns; before the assignment it is absent.
\<close>

record exe_info =
  exe_inputParams :: input_params
  exe_isNewProject :: "bool option"
  exe_isNewEnv :: "bool option"
  exe_forcePush :: "bool option"
  exe_sourceEnvName :: "string option"
  exe_projectConfig :: "project_config option"
  exe_localEnvInfo :: "local_env_info option"
  exe_teamProviderInfo :: "team_provider_info option"
  exe_metaData :: "team_provider_info option"

record ts_context =
  parameters_options :: cli_options
  exeInfo :: exe_info

subsection \<open>Questions, events and results\<close>

text \<open>
  The two \<open>validate\<close> callbacks of the module, by name; \<open>runValidator\<close> below
  gives what each returns.
\<close>

datatype validator = ProjectNameRule | EnvNameRule

datatype question =
  InputQuestion string string "string option" validator
| ListQuestion string string "string list"

datatype usage_error = InvalidEnvironmentNameError string

datatype event =
  PrintWarning string
| PrintError string
| EmitError usage_error
| Prompt question
| ConfirmPrompt string
| EditorSelection

datatype failure = ProcessExit nat | NotFoundError | TypeError

type_synonym 'a proc = "(failure + 'a) \<times> event list"

definition ret :: "'a \<Rightarrow> 'a proc" where
  "ret x = (Inr x, [])"

definition emit :: "event \<Rightarrow> unit proc" where
  "emit e = (Inr (), [e])"

definition lift :: "failure + 'a \<Rightarrow> 'a proc" where
  "lift r = (r, [])"

text \<open>Sequencing: a failure of the first part ends the run, with the events so far.\<close>

definition andThen :: "'a proc \<Rightarrow> ('a \<Rightarrow> 'b proc) \<Rightarrow> 'b proc" where
  "andThen m f =
     (case fst m of
        Inl e \<Rightarrow> (Inl e, snd m)
      | Inr x \<Rightarrow> (fst (f x), snd m @ snd (f x)))"

subsection \<open>The outside world\<close>

text \<open>
  The working directory (\<open>process.cwd()\<close>), the three persisted files (\<open>None\<close>:
  the file does not exist), \<open>context.amplify.getAllEnvs()\<close>, and the answers of the
  user to \<open>inquirer.prompt\<close>, \<open>context.amplify.confirmPrompt\<close> and
  \<open>editorSelection\<close>. Nothing in the module writes to the disk, so one world serves a
  whole run.
\<close>

record world =
  cwd :: string
  projectConfigFile :: "project_config option"
  localEnvInfoFile :: "local_env_info option"
  teamProviderInfoFile :: "team_provider_info option"
  allEnvs :: "string list"
  answerPrompt :: "question \<Rightarrow> string"
  answerConfirm :: "string \<Rightarrow> bool"
  answerEditor :: string

text \<open>
  The helpers of the package that the module imports and whose code is elsewhere:
  \<open>normalizeProjectName\<close>, \<open>normalizeEditor\<close> and the constant
  \<open>amplifyCLIConstants.CURRENT_PROJECT_CONFIG_VERSION\<close>. They are parameters of the
  model.
\<close>

record helpers =
  normalizeProjectName :: "string \<Rightarrow> string"
  normalizeEditor :: "string \<Rightarrow> string"
  CURRENT_PROJECT_CONFIG_VERSION :: string

subsection \<open>JavaScript idioms\<close>

text \<open>
  \<open>a && a.p\<close> as a condition is true when the property is a non-empty string;
  \<open>truthyValue\<close> keeps the string in that case.
\<close>

definition truthyValue :: "string option \<Rightarrow> string option" where
  "truthyValue v = (case v of None \<Rightarrow> None | Some s \<Rightarrow> if s = [] then None else Some s)"

definition truthy :: "string option \<Rightarrow> bool" where
  "truthy v = (truthyValue v \<noteq> None)"

text \<open>
  The truthiness of a JSON value: \<open>null\<close>, \<open>false\<close>, \<open>0\<close> and \<open>""\<close> are
  falsy, every array and every object is truthy.
\<close>

definition jsTruthy :: "js_value \<Rightarrow> bool" where
  "jsTruthy v =
     (case v of
        JNull \<Rightarrow> False
      | JBool b \<Rightarrow> b
      | JNumber n \<Rightarrow> n \<noteq> 0
      | JString s \<Rightarrow> s \<noteq> []
      | JArray xs \<Rightarrow> True
      | JObject ps \<Rightarrow> True)"

text \<open>
  \<open>obj[name]\<close> as a condition. An own property counts by its value. Without an own
  property the lookup goes on to \<open>Object.prototype\<close>, whose properties (functions, and
  the prototype object under \<open>__proto__\<close>) are all truthy.
\<close>

definition objectPrototypeProperties :: "string list" where
  "objectPrototypeProperties =
     [''constructor'', ''__defineGetter__'', ''__defineSetter__'', ''hasOwnProperty'',
      ''__lookupGetter__'', ''__lookupSetter__'', ''isPrototypeOf'', ''propertyIsEnumerable'',
      ''toString'', ''valueOf'', ''__proto__'', ''toLocaleString'']"

definition propertyTruthy :: "(string \<rightharpoonup> js_value) \<Rightarrow> string \<Rightarrow> bool" where
  "propertyTruthy obj name =
     (case obj name of
        Some v \<Rightarrow> jsTruthy v
      | None \<Rightarrow> name \<in> set objectPrototypeProperties)"

definition amplifyParam :: "(amplify_params \<Rightarrow> string option) \<Rightarrow> input_params \<Rightarrow> string option" where
  "amplifyParam f ip = (case ip_amplify ip of None \<Rightarrow> None | Some a \<Rightarrow> f a)"

text \<open>
  \<open>path.basename\<close> of a POSIX path: trailing separators are dropped, then the part
  after the last separator is taken.
\<close>

definition basename :: "string \<Rightarrow> string" where
  "basename p =
     rev (takeWhile (\<lambda>c. c \<noteq> CHR ''/'') (dropWhile (\<lambda>c. c = CHR ''/'') (rev p)))"

definition prompt :: "world \<Rightarrow> question \<Rightarrow> string proc" where
  "prompt w q = (Inr (answerPrompt w q), [Prompt q])"

definition confirmPrompt :: "world \<Rightarrow> string \<Rightarrow> bool proc" where
  "confirmPrompt w msg = (Inr (answerConfirm w msg), [ConfirmPrompt msg])"

definition editorSelection :: "world \<Rightarrow> string proc" where
  "editorSelection w = (Inr (answerEditor w), [EditorSelection])"

subsection \<open>Collaborators of amplify-cli-core\<close>

text \<open>
  Modelled from the spec: \<open>exitOnNextTick\<close> of amplify-cli-core, whose code is not
  part of the module. Section 6 of the specification gives its contract as
  \<open>terminateProcess(exitCode) -> never returns\<close>: the run ends there with the exit
  status, and nothing that follows the call in the text of a function is executed.
\<close>

definition exitOnNextTick :: "nat \<Rightarrow> 'a proc" where
  "exitOnNextTick code = (Inl (ProcessExit code), [])"

text \<open>
  Modelled from the spec: the read primitives of \<open>stateManager\<close>, whose code is not
  part of the module. Sections 5 and 6: a file that exists yields its content; a file
  that does not exist yields the default of the caller (possibly none) when the caller
  passes \<open>throwIfNotExist: false\<close>, and is a failure otherwise.
\<close>

definition stateManager_get :: "'a option \<Rightarrow> bool \<Rightarrow> 'a option \<Rightarrow> failure + 'a option" where
  "stateManager_get file throwIfNotExist dflt =
     (case file of
        Some d \<Rightarrow> Inr (Some d)
      | None \<Rightarrow> if throwIfNotExist then Inl NotFoundError else Inr dflt)"

definition getProjectConfig :: "world \<Rightarrow> failure + project_config option" where
  "getProjectConfig w = stateManager_get (projectConfigFile w) True None"

definition getLocalEnvInfo :: "world \<Rightarrow> bool \<Rightarrow> local_env_info option \<Rightarrow> failure + local_env_info option" where
  "getLocalEnvInfo w throwIfNotExist dflt = stateManager_get (localEnvInfoFile w) throwIfNotExist dflt"

definition getTeamProviderInfo :: "world \<Rightarrow> bool \<Rightarrow> team_provider_info option \<Rightarrow> failure + team_provider_info option" where
  "getTeamProviderInfo w throwIfNotExist dflt = stateManager_get (teamProviderInfoFile w) throwIfNotExist dflt"

text \<open>
  Modelled from the spec: \<open>isProjectNameValid\<close> of project-name-validation, whose
  code is not part of the module. Sections 3 and 4.3: letters and digits only, no spaces
  or symbols, length 3 to 20 inclusive.
\<close>

definition isAlphanumeric :: "char \<Rightarrow> bool" where
  "isAlphanumeric c =
     (c \<in> set ''abcdefghijklmnopqrstuvwxyzABCDEFGHIJKLMNOPQRSTUVWXYZ0123456789'')"

definition isProjectNameValid :: "string \<Rightarrow> bool" where
  "isProjectNameValid s = (3 \<le> length s \<and> length s \<le> 20 \<and> list_all isAlphanumeric s)"

subsection \<open>The functions of the module\<close>

text \<open>\<open>isNewProject\<close>: true unless the project config file exists.\<close>

definition isNewProject :: "world \<Rightarrow> bool" where
  "isNewProject w = (case projectConfigFile w of Some cfg \<Rightarrow> False | None \<Rightarrow> True)"

text \<open>
  \<open>isNewEnv\<close>: the team provider info is read with \<open>throwIfNotExist: false\<close> and
  the default \<open>{}\<close>; the environment is new unless \<open>teamProviderInfo[envName]\<close> is
  truthy. Indexing \<open>undefined\<close> would be a TypeError.
\<close>

definition isNewEnv :: "world \<Rightarrow> string \<Rightarrow> failure + bool" where
  "isNewEnv w envName =
     (case getTeamProviderInfo w False (Some Map.empty) of
        Inl e \<Rightarrow> Inl e
      | Inr None \<Rightarrow> Inl TypeError
      | Inr (Some teamProviderInfo) \<Rightarrow>
          (if propertyTruthy teamProviderInfo envName then Inr False else Inr True))"

text \<open>
  \<open>getDefaultEditor\<close>: the local environment info is read with
  \<open>throwIfNotExist: false\<close> and the default \<open>{}\<close>.
\<close>

definition emptyLocalEnvInfo :: local_env_info where
  "emptyLocalEnvInfo = \<lparr>le_projectPath = None, le_defaultEditor = None, le_envName = None\<rparr>"

definition getDefaultEditor :: "world \<Rightarrow> failure + string option" where
  "getDefaultEditor w =
     (case getLocalEnvInfo w False (Some emptyLocalEnvInfo) of
        Inl e \<Rightarrow> Inl e
      | Inr None \<Rightarrow> Inl TypeError
      | Inr (Some localEnvInfo) \<Rightarrow> Inr (le_defaultEditor localEnvInfo))"

text \<open>\<open>getDefaultEnv\<close>\<close>

definition getDefaultEnv :: "world \<Rightarrow> string option" where
  "getDefaultEnv w =
     (let defaultEnv = ''dev'' in
      if isNewProject w \<or> defaultEnv \<notin> set (allEnvs w) then Some defaultEnv else None)"

text \<open>
  The assignment \<open>context.exeInfo.isNewProject = isNewProject(context)\<close> of lines 31
  and 63.
\<close>

definition setIsNewProject :: "ts_context \<Rightarrow> world \<Rightarrow> ts_context" where
  "setIsNewProject ctx w =
     ctx\<lparr>exeInfo := (exeInfo ctx)\<lparr>exe_isNewProject := Some (isNewProject w)\<rparr>\<rparr>"

text \<open>\<open>setProjectConfig\<close> and \<open>setExeInfo\<close>\<close>

definition setProjectConfig :: "helpers \<Rightarrow> ts_context \<Rightarrow> world \<Rightarrow> string \<Rightarrow> ts_context" where
  "setProjectConfig H ctx w projectName =
     (let ctx1 = setIsNewProject ctx w in
      ctx1\<lparr>exeInfo := (exeInfo ctx1)
        \<lparr>exe_projectConfig := Some
           \<lparr>pc_projectName = projectName,
            pc_version = CURRENT_PROJECT_CONFIG_VERSION H,
            pc_frontend = None\<rparr>\<rparr>\<rparr>)"

definition setExeInfo :: "ts_context \<Rightarrow> string \<Rightarrow> string option \<Rightarrow> string option \<Rightarrow> ts_context" where
  "setExeInfo ctx projectPath defaultEditor envName =
     ctx\<lparr>exeInfo := (exeInfo ctx)
       \<lparr>exe_localEnvInfo := Some
          \<lparr>le_projectPath = Some projectPath,
           le_defaultEditor = defaultEditor,
           le_envName = envName\<rparr>,
        exe_teamProviderInfo := Some Map.empty,
        exe_metaData := Some Map.empty\<rparr>\<rparr>"

text \<open>
  \<open>getProjectName\<close>. The flag read is \<open>context.exeInfo.isNewProject\<close>, falsy while
  absent.
\<close>

definition getProjectName :: "helpers \<Rightarrow> ts_context \<Rightarrow> world \<Rightarrow> string proc" where
  "getProjectName H ctx w =
     (let projectPath = cwd w; ip = exe_inputParams (exeInfo ctx) in
      if exe_isNewProject (exeInfo ctx) \<noteq> Some True then
        (case getProjectConfig w of
           Inl e \<Rightarrow> (Inl e, [])
         | Inr None \<Rightarrow> (Inl TypeError, [])
         | Inr (Some projectConfig) \<Rightarrow> ret (pc_projectName projectConfig))
      else
        (case truthyValue (amplifyParam ap_projectName ip) of
           Some p \<Rightarrow> ret (normalizeProjectName H p)
         | None \<Rightarrow>
             (let projectName = normalizeProjectName H (basename projectPath) in
              if \<not> ip_yes ip then
                prompt w (InputQuestion ''inputProjectName'' ''Enter a name for the project''
                            (Some projectName) ProjectNameRule)
              else ret projectName)))"

text \<open>\<open>getEditor\<close>; \<open>None\<close> is the \<open>undefined\<close> of the headless run without a parameter.\<close>

definition getEditor :: "helpers \<Rightarrow> ts_context \<Rightarrow> world \<Rightarrow> string option proc" where
  "getEditor H ctx w =
     (let ip = exe_inputParams (exeInfo ctx) in
      case truthyValue (amplifyParam ap_defaultEditor ip) of
        Some e \<Rightarrow> ret (Some (normalizeEditor H e))
      | None \<Rightarrow>
          if \<not> ip_yes ip then andThen (editorSelection w) (\<lambda>editor. ret (Some editor))
          else ret None)"

text \<open>
  \<open>getEnvName\<close>. \<open>isEnvNameValid\<close> is the test of \<open>/^[a-z]{2,10}$/\<close>: two to ten
  characters, each a lower-case ASCII letter.
\<close>

definition isEnvNameValid :: "string \<Rightarrow> bool" where
  "isEnvNameValid inputEnvName =
     (2 \<le> length inputEnvName \<and> length inputEnvName \<le> 10 \<and>
      list_all (\<lambda>c. c \<in> set ''abcdefghijklmnopqrstuvwxyz'') inputEnvName)"

definition INVALID_ENV_NAME_MSG :: string where
  "INVALID_ENV_NAME_MSG =
     ''Environment name must be between 2 and 10 characters, and lowercase only.''"

text \<open>What a \<open>validate\<close> callback returns: \<open>None\<close> for \<open>true\<close>, or the message.\<close>

definition runValidator :: "validator \<Rightarrow> string \<Rightarrow> string option" where
  "runValidator v input =
     (case v of
        ProjectNameRule \<Rightarrow>
          if isProjectNameValid input then None
          else Some ''Project name should be between 3 and 20 characters and alphanumeric''
      | EnvNameRule \<Rightarrow>
          if \<not> isEnvNameValid input then Some INVALID_ENV_NAME_MSG else None)"

definition newEnvQuestion :: "world \<Rightarrow> string proc" where
  "newEnvQuestion w =
     (let defaultEnvName = getDefaultEnv w in
      prompt w (InputQuestion ''envName'' ''Enter a name for the environment''
                  defaultEnvName EnvNameRule))"

text \<open>
  Lines 149 to 161: \<open>Some\<close> name is the early return of line 152, \<open>None\<close> is
  falling out of the conditional, and each fatal branch ends in \<open>exitOnNextTick(1)\<close>.
\<close>

definition envNameFromParams :: "ts_context \<Rightarrow> string option proc" where
  "envNameFromParams ctx =
     (let ip = exe_inputParams (exeInfo ctx) in
      case truthyValue (amplifyParam ap_envName ip) of
        Some e \<Rightarrow>
          if isEnvNameValid e then ret (Some e)
          else
            andThen (emit (PrintError INVALID_ENV_NAME_MSG)) (\<lambda>_.
            andThen (emit (EmitError (InvalidEnvironmentNameError INVALID_ENV_NAME_MSG))) (\<lambda>_.
            exitOnNextTick 1))
      | None \<Rightarrow>
          if ip_yes ip then
            andThen (emit (PrintError ''Environment name missing'')) (\<lambda>_.
            andThen (emit (EmitError (InvalidEnvironmentNameError INVALID_ENV_NAME_MSG))) (\<lambda>_.
            exitOnNextTick 1))
          else ret None)"

text \<open>Lines 176 to 197.\<close>

definition envNameFromPrompts :: "world \<Rightarrow> string proc" where
  "envNameFromPrompts w =
     (if isNewProject w then newEnvQuestion w
      else
        (let allEnvs' = allEnvs w in
         if length allEnvs' > 0 then
           andThen (confirmPrompt w ''Do you want to use an existing environment?'') (\<lambda>yes.
             if yes then
               prompt w (ListQuestion ''envName''
                           ''Choose the environment you would like to use:'' allEnvs')
             else newEnvQuestion w)
         else newEnvQuestion w))"

definition getEnvName :: "ts_context \<Rightarrow> world \<Rightarrow> string proc" where
  "getEnvName ctx w =
     andThen (envNameFromParams ctx) (\<lambda>r.
       case r of Some envName \<Rightarrow> ret envName | None \<Rightarrow> envNameFromPrompts w)"

text \<open>
  \<open>analyzeProject\<close>. \<open>carryOver\<close> is the conditional of lines 46 to 54, which
  reads the local environment info with \<open>throwIfNotExist: false\<close> and no default. It
  passes no path, so that the file is looked up from the project root; the project is
  not new there, so the root is the working directory, whose file \<open>getDefaultEditor\<close>
  reads too.
\<close>

definition carryOver :: "ts_context \<Rightarrow> world \<Rightarrow> failure + ts_context" where
  "carryOver ctx w =
     (if exe_isNewEnv (exeInfo ctx) = Some True \<and> exe_isNewProject (exeInfo ctx) \<noteq> Some True then
        (case getLocalEnvInfo w False None of
           Inl e \<Rightarrow> Inl e
         | Inr None \<Rightarrow> Inr ctx
         | Inr (Some currentLocalEnvInfo) \<Rightarrow>
             Inr (ctx\<lparr>exeInfo := (exeInfo ctx)
                    \<lparr>exe_sourceEnvName := le_envName currentLocalEnvInfo\<rparr>\<rparr>))
      else Inr ctx)"

definition analyzeProject :: "helpers \<Rightarrow> ts_context \<Rightarrow> world \<Rightarrow> ts_context proc" where
  "analyzeProject H ctx w =
     andThen
       (if \<not> opt_app (parameters_options ctx) \<or> \<not> opt_quickstart (parameters_options ctx) then
          emit (PrintWarning
            ''Note: It is recommended to run this command from the root of your app directory'')
        else ret ()) (\<lambda>_.
     (let projectPath = cwd w;
          ctx1 = setIsNewProject ctx w in
      andThen (getProjectName H ctx1 w) (\<lambda>projectName.
      andThen (getEnvName ctx1 w) (\<lambda>envName.
      andThen (lift (getDefaultEditor w)) (\<lambda>stored.
      andThen (if \<not> truthy stored then getEditor H ctx1 w else ret stored) (\<lambda>defaultEditor.
      andThen (lift (isNewEnv w envName)) (\<lambda>newEnv.
      (let ctx2 = ctx1\<lparr>exeInfo := (exeInfo ctx1)
                    \<lparr>exe_isNewEnv := Some newEnv,
                     exe_forcePush := Some (opt_forcePush (parameters_options ctx1))\<rparr>\<rparr> in
       andThen (lift (carryOver ctx2 w)) (\<lambda>ctx3.
       ret (setExeInfo (setProjectConfig H ctx3 w projectName)
              projectPath defaultEditor (Some envName)))))))))))"

text \<open>\<open>analyzeProjectHeadless\<close>\<close>

definition setFrontend :: "ts_context \<Rightarrow> string \<Rightarrow> failure + ts_context" where
  "setFrontend ctx frontend =
     (case exe_projectConfig (exeInfo ctx) of
        None \<Rightarrow> Inl TypeError
      | Some cfg \<Rightarrow>
          Inr (ctx\<lparr>exeInfo := (exeInfo ctx)
                 \<lparr>exe_projectConfig := Some (cfg\<lparr>pc_frontend := Some frontend\<rparr>)\<rparr>\<rparr>))"

definition analyzeProjectHeadless :: "helpers \<Rightarrow> ts_context \<Rightarrow> world \<Rightarrow> ts_context proc" where
  "analyzeProjectHeadless H ctx w =
     (let projectPath = cwd w;
          projectName = basename projectPath;
          env = getDefaultEnv w;
          ctx1 = setProjectConfig H ctx w projectName;
          ctx2 = setExeInfo ctx1 projectPath None env in
      case truthyValue (opt_frontend (parameters_options ctx2)) of
        None \<Rightarrow>
          andThen (emit (PrintWarning ''No frontend specified. Defaulting to android.'')) (\<lambda>_.
          lift (setFrontend ctx2 ''android''))
      | Some frontend \<Rightarrow> lift (setFrontend ctx2 frontend))"

subsection \<open>Notions used in the statements\<close>

text \<open>
  The editor stored in the persisted local environment info, if any; whether the
  persisted team provider info (the empty object when there is no file) gives a truthy
  value under a name; the advisory warning that \<open>analyzeProject\<close> prints first.
\<close>

definition storedEditor :: "world \<Rightarrow> string option" where
  "storedEditor w = (case localEnvInfoFile w of None \<Rightarrow> None | Some info \<Rightarrow> le_defaultEditor info)"

definition knownEnv :: "world \<Rightarrow> string \<Rightarrow> bool" where
  "knownEnv w e =
     (case teamProviderInfoFile w of
        None \<Rightarrow> propertyTruthy Map.empty e
      | Some m \<Rightarrow> propertyTruthy m e)"

definition advisory :: "ts_context \<Rightarrow> event list" where
  "advisory ctx =
     (if \<not> opt_app (parameters_options ctx) \<or> \<not> opt_quickstart (parameters_options ctx) then
        [PrintWarning ''Note: It is recommended to run this command from the root of your app directory'']
      else [])"

subsection \<open>Concrete runs\<close>

text \<open>
  A context as the init command hands it over (only \<open>inputParams\<close> set), a directory
  without any Amplify file, and a directory of an existing project with the environment
  \<open>dev\<close>. The user answers \<open>shop\<close> to the project-name question, \<open>stage\<close> to the
  environment-name question, \<open>dev\<close> to the list and declines the confirmation.
\<close>

definition plainOptions :: cli_options where
  "plainOptions = \<lparr>opt_app = False, opt_quickstart = False, opt_forcePush = False, opt_frontend = None\<rparr>"

definition startContext :: "input_params \<Rightarrow> ts_context" where
  "startContext ip =
     \<lparr>parameters_options = plainOptions,
      exeInfo = \<lparr>exe_inputParams = ip, exe_isNewProject = None, exe_isNewEnv = None,
        exe_forcePush = None, exe_sourceEnvName = None, exe_projectConfig = None,
        exe_localEnvInfo = None, exe_teamProviderInfo = None, exe_metaData = None\<rparr>\<rparr>"

definition amplifyParams :: "string option \<Rightarrow> string option \<Rightarrow> string option \<Rightarrow> bool \<Rightarrow> input_params" where
  "amplifyParams name editor env y =
     \<lparr>ip_amplify = Some \<lparr>ap_projectName = name, ap_defaultEditor = editor, ap_envName = env\<rparr>,
      ip_yes = y\<rparr>"

definition noParams :: "bool \<Rightarrow> input_params" where
  "noParams y = \<lparr>ip_amplify = None, ip_yes = y\<rparr>"

definition scriptedAnswer :: "question \<Rightarrow> string" where
  "scriptedAnswer q =
     (case q of
        InputQuestion n m d v \<Rightarrow> (case v of ProjectNameRule \<Rightarrow> ''shop'' | EnvNameRule \<Rightarrow> ''stage'')
      | ListQuestion n m cs \<Rightarrow> ''dev'')"

definition emptyDirectory :: world where
  "emptyDirectory =
     \<lparr>cwd = ''/home/me/shop'', projectConfigFile = None, localEnvInfoFile = None,
      teamProviderInfoFile = None, allEnvs = [], answerPrompt = scriptedAnswer,
      answerConfirm = (\<lambda>m. False), answerEditor = ''vscode''\<rparr>"

definition existingProject :: world where
  "existingProject =
     \<lparr>cwd = ''/home/me/shop'',
      projectConfigFile = Some \<lparr>pc_projectName = ''shop1'', pc_version = ''3.1'',
        pc_frontend = Some ''javascript''\<rparr>,
      localEnvInfoFile = Some \<lparr>le_projectPath = Some ''/home/me/shop'',
        le_defaultEditor = Some ''intellij'', le_envName = Some ''dev''\<rparr>,
      teamProviderInfoFile = Some [''dev'' \<mapsto> JObject []],
      allEnvs = [''dev''], answerPrompt = scriptedAnswer,
      answerConfirm = (\<lambda>m. False), answerEditor = ''vscode''\<rparr>"

text \<open>
  Values for the parameters of the model, for the concrete runs only. This normalizer
  returns nothing but valid names: it drops what is neither letter nor digit, fills a
  name shorter than three characters up and cuts a longer one at twenty.
\<close>

definition sampleNormalizer :: "string \<Rightarrow> string" where
  "sampleNormalizer s =
     (let t = filter isAlphanumeric s in
      if length t < 3 then t @ ''amplify'' else take 20 t)"

definition sampleHelpers :: helpers where
  "sampleHelpers =
     \<lparr>normalizeProjectName = sampleNormalizer, normalizeEditor = (\<lambda>e. e),
      CURRENT_PROJECT_CONFIG_VERSION = ''3.1''\<rparr>"

text \<open>
  The existing project with \<open>null\<close> stored under \<open>dev\<close> in its team provider info.
\<close>

definition projectWithNullEntry :: world where
  "projectWithNullEntry = existingProject\<lparr>teamProviderInfoFile := Some [''dev'' \<mapsto> JNull]\<rparr>"

definition projectWithoutLocalInfo :: world where
  "projectWithoutLocalInfo = existingProject\<lparr>localEnvInfoFile := None\<rparr>"

subsection \<open>Which resolver an event belongs to\<close>

text \<open>
  The warning of line 28 belongs to no resolver. The project-name question is asked by
  \<open>getProjectName\<close>; the error print, the usage error, the confirmation, the list and
  the environment-name question come from \<open>getEnvName\<close>; the editor selection from
  \<open>getEditor\<close>. \<open>codeOrder\<close> ranks the resolvers as \<open>analyzeProject\<close> calls them,
  \<open>claimedOrder\<close> as section 2 of the specification lists them.
\<close>

datatype resolver = Advisory | ProjectIdentity | Environment | Editor

definition resolverOf :: "event \<Rightarrow> resolver" where
  "resolverOf e =
     (case e of
        PrintWarning m \<Rightarrow> Advisory
      | PrintError m \<Rightarrow> Environment
      | EmitError u \<Rightarrow> Environment
      | Prompt q \<Rightarrow>
          (case q of
             InputQuestion n m d v \<Rightarrow>
               (case v of ProjectNameRule \<Rightarrow> ProjectIdentity | EnvNameRule \<Rightarrow> Environment)
           | ListQuestion n m cs \<Rightarrow> Environment)
      | ConfirmPrompt m \<Rightarrow> Environment
      | EditorSelection \<Rightarrow> Editor)"

definition codeOrder :: "resolver \<Rightarrow> nat" where
  "codeOrder r = (case r of Advisory \<Rightarrow> 0 | ProjectIdentity \<Rightarrow> 1 | Environment \<Rightarrow> 2 | Editor \<Rightarrow> 3)"

definition claimedOrder :: "resolver \<Rightarrow> nat" where
  "claimedOrder r = (case r of Advisory \<Rightarrow> 0 | ProjectIdentity \<Rightarrow> 1 | Editor \<Rightarrow> 2 | Environment \<Rightarrow> 3)"

section \<open>Properties\<close>

subsection \<open>Sequencing and the collaborators\<close>

lemma fst_andThen_Inr:
  "fst (andThen m f) = Inr y \<longleftrightarrow> (\<exists>x. fst m = Inr x \<and> fst (f x) = Inr y)"
  by (cases "fst m") (simp_all add: andThen_def)

lemma fst_andThen_Inl:
  "fst (andThen m f) = Inl e \<longleftrightarrow> fst m = Inl e \<or> (\<exists>x. fst m = Inr x \<and> fst (f x) = Inl e)"
  by (cases "fst m") (simp_all add: andThen_def)

lemma snd_andThen:
  "snd (andThen m f) = (case fst m of Inl e \<Rightarrow> snd m | Inr x \<Rightarrow> snd m @ snd (f x))"
  by (cases "fst m") (simp_all add: andThen_def)

lemma andThen_Inr [simp]: "andThen (Inr x, t) f = (fst (f x), t @ snd (f x))"
  by (simp add: andThen_def)

lemma andThen_Inl [simp]: "andThen (Inl e, t) f = (Inl e, t)"
  by (simp add: andThen_def)

lemmas proc_defs = ret_def emit_def lift_def prompt_def confirmPrompt_def editorSelection_def
  exitOnNextTick_def

lemmas fixture_defs = plainOptions_def startContext_def amplifyParams_def noParams_def
  scriptedAnswer_def emptyDirectory_def existingProject_def sampleNormalizer_def
  sampleHelpers_def

lemmas module_defs = analyzeProject_def analyzeProjectHeadless_def getProjectName_def getEnvName_def
  envNameFromParams_def envNameFromPrompts_def newEnvQuestion_def getEditor_def getDefaultEnv_def
  getDefaultEditor_def isNewEnv_def isNewProject_def carryOver_def setProjectConfig_def
  setExeInfo_def setIsNewProject_def setFrontend_def getProjectConfig_def getLocalEnvInfo_def
  getTeamProviderInfo_def stateManager_get_def emptyLocalEnvInfo_def truthy_def truthyValue_def
  amplifyParam_def isEnvNameValid_def isProjectNameValid_def isAlphanumeric_def basename_def
  propertyTruthy_def jsTruthy_def objectPrototypeProperties_def Let_def

lemma getDefaultEditor_eq: "getDefaultEditor w = Inr (storedEditor w)"
  by (simp add: getDefaultEditor_def getLocalEnvInfo_def stateManager_get_def emptyLocalEnvInfo_def
      storedEditor_def split: option.splits)

lemma isNewEnv_eq: "isNewEnv w e = Inr (\<not> knownEnv w e)"
  by (simp add: isNewEnv_def getTeamProviderInfo_def stateManager_get_def knownEnv_def
      split: option.splits)

lemma carryOver_eq:
  "carryOver c w =
     Inr (if exe_isNewEnv (exeInfo c) = Some True \<and> exe_isNewProject (exeInfo c) \<noteq> Some True
          then (case localEnvInfoFile w of
                  None \<Rightarrow> c
                | Some info \<Rightarrow> c\<lparr>exeInfo := (exeInfo c)\<lparr>exe_sourceEnvName := le_envName info\<rparr>\<rparr>)
          else c)"
  by (simp add: carryOver_def getLocalEnvInfo_def stateManager_get_def split: option.splits)

lemma getEditor_returns: "\<exists>ed. fst (getEditor H c w) = Inr ed"
  by (simp add: getEditor_def Let_def proc_defs split: option.splits)

lemma getProjectName_returns:
  "\<exists>n. fst (getProjectName H (setIsNewProject c w) w) = Inr n"
  by (simp add: getProjectName_def setIsNewProject_def Let_def proc_defs isNewProject_def
      getProjectConfig_def stateManager_get_def split: option.splits)

lemma getEnvName_fails:
  "fst (getEnvName c w) = Inl e \<Longrightarrow> e = ProcessExit 1"
  by (auto simp add: getEnvName_def envNameFromParams_def envNameFromPrompts_def newEnvQuestion_def
      Let_def proc_defs fst_andThen_Inl split: option.splits if_splits)

text \<open>What a run of \<open>analyzeProject\<close> that returns has computed, step by step.\<close>

lemma analyzeProject_returns:
  assumes "fst (analyzeProject H ctx w) = Inr ctx'"
  shows "\<exists>name env ed ctx3.
    fst (getProjectName H (setIsNewProject ctx w) w) = Inr name \<and>
    fst (getEnvName (setIsNewProject ctx w) w) = Inr env \<and>
    fst (if \<not> truthy (storedEditor w) then getEditor H (setIsNewProject ctx w) w
         else ret (storedEditor w)) = Inr ed \<and>
    carryOver ((setIsNewProject ctx w)\<lparr>exeInfo := (exeInfo (setIsNewProject ctx w))
                    \<lparr>exe_isNewEnv := Some (\<not> knownEnv w env),
                     exe_forcePush := Some (opt_forcePush (parameters_options ctx))\<rparr>\<rparr>) w = Inr ctx3 \<and>
    ctx' = setExeInfo (setProjectConfig H ctx3 w name) (cwd w) ed (Some env)"
proof -
  have p: "parameters_options (setIsNewProject ctx w) = parameters_options ctx"
    by (simp add: setIsNewProject_def)
  show ?thesis
    using assms
    unfolding analyzeProject_def Let_def fst_andThen_Inr getDefaultEditor_eq isNewEnv_eq lift_def p
    by (auto simp add: ret_def split: if_splits)
qed

text \<open>The events of a run of \<open>analyzeProject\<close>, in the order of the calls.\<close>

lemma analyzeProject_trace:
  "snd (analyzeProject H ctx w) =
     advisory ctx @ snd (getProjectName H (setIsNewProject ctx w) w) @
     (case fst (getProjectName H (setIsNewProject ctx w) w) of
        Inl e \<Rightarrow> []
      | Inr name \<Rightarrow>
          snd (getEnvName (setIsNewProject ctx w) w) @
          (case fst (getEnvName (setIsNewProject ctx w) w) of
             Inl e \<Rightarrow> []
           | Inr env \<Rightarrow>
               (if \<not> truthy (storedEditor w) then snd (getEditor H (setIsNewProject ctx w) w)
                else [])))"
proof -
  obtain ed where ed: "fst (getEditor H (setIsNewProject ctx w) w) = Inr ed"
    using getEditor_returns by blast
  show ?thesis
    unfolding analyzeProject_def Let_def snd_andThen getDefaultEditor_eq isNewEnv_eq carryOver_eq
      lift_def advisory_def
    by (simp add: ret_def emit_def ed split: sum.splits)
qed

subsection \<open>Environment name given as a parameter\<close>

text \<open>
  C1, as amended. When \<open>inputParams.amplify.envName\<close> is a non-empty string,
  \<open>getEnvName\<close> returns it as it is, with no event at all, if it has two to ten
  lower-case letters; otherwise it prints the invalid-name message, emits the usage
  error and ends the process with exit status 1, returning no name. When the parameter
  is the empty string, \<open>getEnvName\<close> does in every world what it does for a context
  with the same \<open>yes\<close> flag and no such parameter.
\<close>

theorem getEnvName_explicit_param:
  "(\<forall>e. amplifyParam ap_envName (exe_inputParams (exeInfo ctx)) = Some e \<and> e \<noteq> [] \<longrightarrow>
      getEnvName ctx w =
        (if isEnvNameValid e then (Inr e, [])
         else (Inl (ProcessExit 1),
               [PrintError INVALID_ENV_NAME_MSG,
                EmitError (InvalidEnvironmentNameError INVALID_ENV_NAME_MSG)]))) \<and>
   (amplifyParam ap_envName (exe_inputParams (exeInfo ctx)) = Some [] \<and>
    amplifyParam ap_envName (exe_inputParams (exeInfo ctx0)) = None \<and>
    ip_yes (exe_inputParams (exeInfo ctx)) = ip_yes (exe_inputParams (exeInfo ctx0)) \<longrightarrow>
      getEnvName ctx w = getEnvName ctx0 w)"
  by (simp add: getEnvName_def envNameFromParams_def truthyValue_def proc_defs)

theorem getEnvName_explicit_param_witness:
  "getEnvName (startContext (amplifyParams None None (Some ''dev'') True)) emptyDirectory =
     (Inr ''dev'', []) \<and>
   getEnvName (startContext (amplifyParams None None (Some ''DEV'') True)) emptyDirectory =
     (Inl (ProcessExit 1),
      [PrintError INVALID_ENV_NAME_MSG,
       EmitError (InvalidEnvironmentNameError INVALID_ENV_NAME_MSG)]) \<and>
   getEnvName (startContext (amplifyParams None None (Some '''') False)) existingProject =
     getEnvName (startContext (noParams False)) existingProject \<and>
   getEnvName (startContext (amplifyParams None None (Some '''') True)) existingProject =
     getEnvName (startContext (amplifyParams None None None True)) existingProject"
  using
    getEnvName_explicit_param
      [of "startContext (amplifyParams None None (Some ''dev'') True)" emptyDirectory
          "startContext (noParams True)"]
    getEnvName_explicit_param
      [of "startContext (amplifyParams None None (Some ''DEV'') True)" emptyDirectory
          "startContext (noParams True)"]
    getEnvName_explicit_param
      [of "startContext (amplifyParams None None (Some '''') False)" existingProject
          "startContext (noParams False)"]
    getEnvName_explicit_param
      [of "startContext (amplifyParams None None (Some '''') True)" existingProject
          "startContext (amplifyParams None None None True)"]
  by (simp add: startContext_def amplifyParams_def noParams_def amplifyParam_def isEnvNameValid_def)

text \<open>
  C1 as stated fails for the parameter \<open>envName: ""\<close>: the empty string does not match
  the pattern, yet line 149 takes it for absent, and the interactive run goes on to the
  prompt and returns the answer.
\<close>

theorem getEnvName_empty_param_counterexample:
  "\<not> isEnvNameValid '''' \<and>
   getEnvName (startContext (amplifyParams None None (Some '''') False)) emptyDirectory =
     (Inr ''stage'',
      [Prompt (InputQuestion ''envName'' ''Enter a name for the environment''
                 (Some ''dev'') EnvNameRule)])"
  by (simp add: fixture_defs module_defs proc_defs)

subsection \<open>Accepting all defaults without an environment name\<close>

text \<open>
  C2. With \<open>inputParams.yes\<close> set and no environment name among the parameters (absent,
  or empty, which line 149 takes for absent), \<open>getEnvName\<close> prints
  \<open>Environment name missing\<close>, emits the usage error and ends the process with exit
  status 1. These two are all the events of the run: no prompt is reached.
\<close>

theorem getEnvName_yes_without_param:
  assumes "ip_yes (exe_inputParams (exeInfo ctx))"
    and "\<not> truthy (amplifyParam ap_envName (exe_inputParams (exeInfo ctx)))"
  shows "getEnvName ctx w =
    (Inl (ProcessExit 1),
     [PrintError ''Environment name missing'',
      EmitError (InvalidEnvironmentNameError INVALID_ENV_NAME_MSG)])"
  using assms
  by (simp add: getEnvName_def envNameFromParams_def truthy_def proc_defs split: option.splits)

theorem getEnvName_yes_without_param_witness:
  "getEnvName (startContext (noParams True)) existingProject =
    (Inl (ProcessExit 1),
     [PrintError ''Environment name missing'',
      EmitError (InvalidEnvironmentNameError INVALID_ENV_NAME_MSG)])"
  using getEnvName_yes_without_param [of "startContext (noParams True)" existingProject]
  by (simp add: startContext_def noParams_def amplifyParam_def truthy_def truthyValue_def)

subsection \<open>Events and failures of the parts\<close>

lemma advisory_resolver: "e \<in> set (advisory ctx) \<Longrightarrow> resolverOf e = Advisory"
  by (auto simp add: advisory_def resolverOf_def split: if_splits)

lemma getProjectName_resolver:
  "e \<in> set (snd (getProjectName H c w)) \<Longrightarrow> resolverOf e = ProjectIdentity"
  by (auto simp add: getProjectName_def Let_def proc_defs resolverOf_def
      split: if_splits option.splits sum.splits)

lemma getEnvName_resolver:
  "e \<in> set (snd (getEnvName c w)) \<Longrightarrow> resolverOf e = Environment"
  by (auto simp add: getEnvName_def envNameFromParams_def envNameFromPrompts_def newEnvQuestion_def
      Let_def proc_defs resolverOf_def snd_andThen split: if_splits option.splits sum.splits)

lemma getEditor_resolver:
  "e \<in> set (snd (getEditor H c w)) \<Longrightarrow> resolverOf e = Editor"
  by (auto simp add: getEditor_def Let_def proc_defs resolverOf_def
      split: if_splits option.splits)

lemma sorted_const: "(\<And>x. x \<in> set xs \<Longrightarrow> f x = (k::nat)) \<Longrightarrow> sorted (map f xs)"
  by (induction xs) auto

text \<open>The only failure of \<open>analyzeProject\<close> is the exit of \<open>getEnvName\<close>.\<close>

lemma analyzeProject_fails:
  assumes "fst (analyzeProject H ctx w) = Inl e"
  shows "e = ProcessExit 1"
proof -
  obtain n where n: "fst (getProjectName H (setIsNewProject ctx w) w) = Inr n"
    using getProjectName_returns by blast
  obtain ed where ed: "fst (getEditor H (setIsNewProject ctx w) w) = Inr ed"
    using getEditor_returns by blast
  show ?thesis
    using assms getEnvName_fails [of "setIsNewProject ctx w" w e]
    unfolding analyzeProject_def Let_def fst_andThen_Inl fst_andThen_Inr getDefaultEditor_eq
      isNewEnv_eq carryOver_eq lift_def
    by (auto simp add: ret_def emit_def n ed split: if_splits)
qed

subsection \<open>New project, and the name of an existing one\<close>

text \<open>
  C3. \<open>isNewProject\<close> is true exactly when the project config file does not exist, and
  so is the flag of the context that \<open>analyzeProject\<close> returns. When the file exists,
  \<open>getProjectName\<close> returns the \<open>projectName\<close> stored in it, whatever that string
  is, without any event (so without a prompt), and that name is the \<open>projectName\<close>
  of the returned \<open>projectConfig\<close>.
\<close>

theorem existing_project_name:
  "(isNewProject w \<longleftrightarrow> projectConfigFile w = None) \<and>
   (\<forall>cfg. projectConfigFile w = Some cfg \<longrightarrow>
      getProjectName H (setIsNewProject ctx w) w = (Inr (pc_projectName cfg), [])) \<and>
   (fst (analyzeProject H ctx w) = Inr ctx' \<longrightarrow>
      exe_isNewProject (exeInfo ctx') = Some (projectConfigFile w = None) \<and>
      (\<forall>cfg. projectConfigFile w = Some cfg \<longrightarrow>
         map_option pc_projectName (exe_projectConfig (exeInfo ctx')) = Some (pc_projectName cfg)))"
proof (intro conjI impI allI)
  show "isNewProject w \<longleftrightarrow> projectConfigFile w = None"
    by (simp add: isNewProject_def split: option.splits)
next
  fix cfg assume "projectConfigFile w = Some cfg"
  then show "getProjectName H (setIsNewProject ctx w) w = (Inr (pc_projectName cfg), [])"
    by (simp add: getProjectName_def setIsNewProject_def isNewProject_def getProjectConfig_def
        stateManager_get_def ret_def)
next
  assume r: "fst (analyzeProject H ctx w) = Inr ctx'"
  from analyzeProject_returns [OF r] obtain name env ed ctx3 where
    n: "fst (getProjectName H (setIsNewProject ctx w) w) = Inr name" and
    c: "ctx' = setExeInfo (setProjectConfig H ctx3 w name) (cwd w) ed (Some env)"
    by blast
  show "exe_isNewProject (exeInfo ctx') = Some (projectConfigFile w = None)"
    by (simp add: c setExeInfo_def setProjectConfig_def setIsNewProject_def isNewProject_def
        split: option.splits)
  fix cfg assume f: "projectConfigFile w = Some cfg"
  then have "name = pc_projectName cfg"
    using n
    by (simp add: getProjectName_def setIsNewProject_def isNewProject_def getProjectConfig_def
        stateManager_get_def ret_def)
  then show "map_option pc_projectName (exe_projectConfig (exeInfo ctx')) = Some (pc_projectName cfg)"
    by (simp add: c setExeInfo_def setProjectConfig_def setIsNewProject_def)
qed

lemma run_existing_dev:
  "fst (analyzeProject sampleHelpers (startContext (amplifyParams None None (Some ''dev'') True))
     existingProject) =
   Inr (projr (fst (analyzeProject sampleHelpers
     (startContext (amplifyParams None None (Some ''dev'') True)) existingProject)))"
  by (simp add: fixture_defs module_defs proc_defs)

theorem existing_project_name_witness:
  "\<not> isNewProject existingProject \<and>
   getProjectName sampleHelpers
     (setIsNewProject (startContext (amplifyParams None None (Some ''dev'') True)) existingProject)
     existingProject = (Inr ''shop1'', []) \<and>
   exe_isNewProject (exeInfo (projr (fst
     (analyzeProject sampleHelpers (startContext (amplifyParams None None (Some ''dev'') True))
        existingProject)))) = Some False \<and>
   map_option pc_projectName (exe_projectConfig (exeInfo (projr (fst
     (analyzeProject sampleHelpers (startContext (amplifyParams None None (Some ''dev'') True))
        existingProject))))) = Some ''shop1'' \<and>
   isNewProject emptyDirectory"
  using
    existing_project_name [of existingProject sampleHelpers
      "startContext (amplifyParams None None (Some ''dev'') True)"
      "projr (fst (analyzeProject sampleHelpers
         (startContext (amplifyParams None None (Some ''dev'') True)) existingProject))"]
    existing_project_name [of emptyDirectory sampleHelpers
      "startContext (amplifyParams None None (Some ''dev'') True)"
      "startContext (amplifyParams None None (Some ''dev'') True)"]
    run_existing_dev
  by (simp add: existingProject_def emptyDirectory_def)

subsection \<open>New environment\<close>

lemma valid_name_not_inherited:
  "isEnvNameValid e \<Longrightarrow> e \<notin> set objectPrototypeProperties"
  by (auto simp add: isEnvNameValid_def objectPrototypeProperties_def)

text \<open>
  C4, as amended. \<open>isNewEnv\<close> never fails, a missing file being read as the empty
  object, and answers false exactly when the team provider info gives a truthy value
  under the name: the file exists and holds a truthy value under it, or holds nothing
  under it and the name is one that every object inherits. For a name of two to ten
  lower-case letters only the first case is left, and an object stored under the name
  always makes the environment not new. In the context that \<open>analyzeProject\<close>
  returns, \<open>isNewEnv\<close> is that answer for the environment name of \<open>localEnvInfo\<close>.
\<close>

theorem isNewEnv_iff_truthy_entry:
  "isNewEnv w envName =
     Inr (\<not> ((\<exists>m v. teamProviderInfoFile w = Some m \<and> m envName = Some v \<and> jsTruthy v) \<or>
              (envName \<in> set objectPrototypeProperties \<and>
               (\<forall>m. teamProviderInfoFile w = Some m \<longrightarrow> m envName = None)))) \<and>
   (isEnvNameValid envName \<longrightarrow>
      isNewEnv w envName =
        Inr (\<not> (\<exists>m v. teamProviderInfoFile w = Some m \<and> m envName = Some v \<and> jsTruthy v))) \<and>
   (\<forall>m ps. teamProviderInfoFile w = Some m \<and> m envName = Some (JObject ps) \<longrightarrow>
      isNewEnv w envName = Inr False) \<and>
   (fst (analyzeProject H ctx w) = Inr ctx' \<longrightarrow>
      (\<exists>env. map_option le_envName (exe_localEnvInfo (exeInfo ctx')) = Some (Some env) \<and>
         exe_isNewEnv (exeInfo ctx') =
           Some (\<not> ((\<exists>m v. teamProviderInfoFile w = Some m \<and> m env = Some v \<and> jsTruthy v) \<or>
                    (env \<in> set objectPrototypeProperties \<and>
                     (\<forall>m. teamProviderInfoFile w = Some m \<longrightarrow> m env = None))))))"
proof (intro conjI impI allI)
  have k: "knownEnv w e \<longleftrightarrow>
      (\<exists>m v. teamProviderInfoFile w = Some m \<and> m e = Some v \<and> jsTruthy v) \<or>
      (e \<in> set objectPrototypeProperties \<and>
       (\<forall>m. teamProviderInfoFile w = Some m \<longrightarrow> m e = None))" for e
    by (auto simp add: knownEnv_def propertyTruthy_def split: option.splits)
  show g: "isNewEnv w envName =
     Inr (\<not> ((\<exists>m v. teamProviderInfoFile w = Some m \<and> m envName = Some v \<and> jsTruthy v) \<or>
              (envName \<in> set objectPrototypeProperties \<and>
               (\<forall>m. teamProviderInfoFile w = Some m \<longrightarrow> m envName = None))))"
    by (simp add: isNewEnv_eq k)
  show "isNewEnv w envName =
        Inr (\<not> (\<exists>m v. teamProviderInfoFile w = Some m \<and> m envName = Some v \<and> jsTruthy v))"
    if "isEnvNameValid envName"
    using valid_name_not_inherited [OF that] g by simp
  show "isNewEnv w envName = Inr False"
    if "teamProviderInfoFile w = Some m \<and> m envName = Some (JObject ps)" for m ps
    using that by (simp add: isNewEnv_eq knownEnv_def propertyTruthy_def jsTruthy_def)
  assume r: "fst (analyzeProject H ctx w) = Inr ctx'"
  from analyzeProject_returns [OF r] obtain name env ed ctx3 where
    o: "carryOver ((setIsNewProject ctx w)\<lparr>exeInfo := (exeInfo (setIsNewProject ctx w))
                    \<lparr>exe_isNewEnv := Some (\<not> knownEnv w env),
                     exe_forcePush := Some (opt_forcePush (parameters_options ctx))\<rparr>\<rparr>) w = Inr ctx3" and
    c: "ctx' = setExeInfo (setProjectConfig H ctx3 w name) (cwd w) ed (Some env)"
    by blast
  from o have "exe_isNewEnv (exeInfo ctx3) = Some (\<not> knownEnv w env)"
    by (auto simp add: carryOver_eq split: if_splits option.splits)
  then have "map_option le_envName (exe_localEnvInfo (exeInfo ctx')) = Some (Some env) \<and>
         exe_isNewEnv (exeInfo ctx') =
           Some (\<not> ((\<exists>m v. teamProviderInfoFile w = Some m \<and> m env = Some v \<and> jsTruthy v) \<or>
                    (env \<in> set objectPrototypeProperties \<and>
                     (\<forall>m. teamProviderInfoFile w = Some m \<longrightarrow> m env = None))))"
    by (simp add: c setExeInfo_def setProjectConfig_def setIsNewProject_def k)
  then show "\<exists>env. map_option le_envName (exe_localEnvInfo (exeInfo ctx')) = Some (Some env) \<and>
         exe_isNewEnv (exeInfo ctx') =
           Some (\<not> ((\<exists>m v. teamProviderInfoFile w = Some m \<and> m env = Some v \<and> jsTruthy v) \<or>
                    (env \<in> set objectPrototypeProperties \<and>
                     (\<forall>m. teamProviderInfoFile w = Some m \<longrightarrow> m env = None))))"
    by blast
qed

lemma run_new_stage:
  "fst (analyzeProject sampleHelpers (startContext (amplifyParams None None (Some ''stage'') True))
     existingProject) =
   Inr (projr (fst (analyzeProject sampleHelpers
     (startContext (amplifyParams None None (Some ''stage'') True)) existingProject)))"
  by (simp add: fixture_defs module_defs proc_defs)

theorem isNewEnv_iff_truthy_entry_witness:
  "isNewEnv existingProject ''dev'' = Inr False \<and>
   isNewEnv existingProject ''stage'' = Inr True \<and>
   isNewEnv emptyDirectory ''dev'' = Inr True \<and>
   exe_isNewEnv (exeInfo (projr (fst (analyzeProject sampleHelpers
     (startContext (amplifyParams None None (Some ''stage'') True)) existingProject)))) = Some True"
proof -
  have e: "map_option le_envName (exe_localEnvInfo (exeInfo (projr (fst (analyzeProject sampleHelpers
     (startContext (amplifyParams None None (Some ''stage'') True)) existingProject))))) =
     Some (Some ''stage'')"
    by (simp add: fixture_defs module_defs proc_defs)
  have v: "isEnvNameValid ''dev''" "isEnvNameValid ''stage''"
    by (simp_all add: isEnvNameValid_def)
  have i: "''stage'' \<notin> set objectPrototypeProperties"
    by (simp add: objectPrototypeProperties_def)
  show ?thesis
    using
      isNewEnv_iff_truthy_entry [of existingProject "''dev''" sampleHelpers
        "startContext (amplifyParams None None (Some ''stage'') True)"
        "projr (fst (analyzeProject sampleHelpers
           (startContext (amplifyParams None None (Some ''stage'') True)) existingProject))"]
      isNewEnv_iff_truthy_entry [of existingProject "''stage''" sampleHelpers
        "startContext (amplifyParams None None (Some ''stage'') True)"
        "projr (fst (analyzeProject sampleHelpers
           (startContext (amplifyParams None None (Some ''stage'') True)) existingProject))"]
      isNewEnv_iff_truthy_entry [of emptyDirectory "''dev''" sampleHelpers
        "startContext (amplifyParams None None (Some ''stage'') True)"
        "startContext (amplifyParams None None (Some ''stage'') True)"]
      run_new_stage e v i
    by (auto simp add: existingProject_def emptyDirectory_def jsTruthy_def)
qed

text \<open>
  C4 as stated fails when the file holds a falsy value under the name: with \<open>null\<close>
  stored under \<open>dev\<close>, the headless run with the parameter \<open>dev\<close> returns with
  \<open>isNewEnv\<close> true although \<open>dev\<close> is a key of the mapping. It fails the other way
  for an inherited name: without any file, \<open>isNewEnv\<close> answers false for
  \<open>constructor\<close>.
\<close>

theorem isNewEnv_null_entry_counterexample:
  "(\<exists>m. teamProviderInfoFile projectWithNullEntry = Some m \<and> ''dev'' \<in> dom m) \<and>
   analyzeProject sampleHelpers (startContext (amplifyParams None None (Some ''dev'') True))
     projectWithNullEntry =
   (Inr (projr (fst (analyzeProject sampleHelpers
      (startContext (amplifyParams None None (Some ''dev'') True)) projectWithNullEntry))),
    [PrintWarning ''Note: It is recommended to run this command from the root of your app directory'']) \<and>
   map_option le_envName (exe_localEnvInfo (exeInfo (projr (fst (analyzeProject sampleHelpers
      (startContext (amplifyParams None None (Some ''dev'') True)) projectWithNullEntry))))) =
     Some (Some ''dev'') \<and>
   exe_isNewEnv (exeInfo (projr (fst (analyzeProject sampleHelpers
      (startContext (amplifyParams None None (Some ''dev'') True)) projectWithNullEntry)))) =
     Some True \<and>
   teamProviderInfoFile emptyDirectory = None \<and>
   isNewEnv emptyDirectory ''constructor'' = Inr False"
  by (simp add: fixture_defs module_defs proc_defs projectWithNullEntry_def)

subsection \<open>The stored editor\<close>

text \<open>
  C5. When the persisted local environment info holds a non-empty \<open>defaultEditor\<close>,
  no run of \<open>analyzeProject\<close> asks for an editor, and a run that returns has that
  editor, unchanged, as the \<open>defaultEditor\<close> of \<open>localEnvInfo\<close>: whatever the
  \<open>yes\<close> flag, the editor parameter and \<open>normalizeEditor\<close> are.
\<close>

theorem stored_editor_wins:
  assumes "localEnvInfoFile w = Some info" and "le_defaultEditor info = Some ed" and "ed \<noteq> []"
  shows "EditorSelection \<notin> set (snd (analyzeProject H ctx w)) \<and>
    (fst (analyzeProject H ctx w) = Inr ctx' \<longrightarrow>
       map_option le_defaultEditor (exe_localEnvInfo (exeInfo ctx')) = Some (Some ed))"
proof (intro conjI impI)
  have st: "storedEditor w = Some ed" and t: "truthy (storedEditor w)"
    using assms by (simp_all add: storedEditor_def truthy_def truthyValue_def)
  have "EditorSelection \<notin> set (advisory ctx)"
    using advisory_resolver [of EditorSelection ctx] by (auto simp add: resolverOf_def)
  moreover have "EditorSelection \<notin> set (snd (getProjectName H (setIsNewProject ctx w) w))"
    using getProjectName_resolver [of EditorSelection] by (auto simp add: resolverOf_def)
  moreover have "EditorSelection \<notin> set (snd (getEnvName (setIsNewProject ctx w) w))"
    using getEnvName_resolver [of EditorSelection] by (auto simp add: resolverOf_def)
  ultimately show "EditorSelection \<notin> set (snd (analyzeProject H ctx w))"
    unfolding analyzeProject_trace using t by (auto split: sum.splits)
  assume r: "fst (analyzeProject H ctx w) = Inr ctx'"
  from analyzeProject_returns [OF r] obtain name env e ctx3 where
    e: "fst (if \<not> truthy (storedEditor w) then getEditor H (setIsNewProject ctx w) w
         else ret (storedEditor w)) = Inr e" and
    c: "ctx' = setExeInfo (setProjectConfig H ctx3 w name) (cwd w) e (Some env)"
    by blast
  from e t st have "e = Some ed"
    by (simp add: ret_def)
  then show "map_option le_defaultEditor (exe_localEnvInfo (exeInfo ctx')) = Some (Some ed)"
    by (simp add: c setExeInfo_def)
qed

lemma run_existing_interactive_editor:
  "fst (analyzeProject sampleHelpers (startContext (amplifyParams None (Some ''vim'') None False))
     existingProject) =
   Inr (projr (fst (analyzeProject sampleHelpers
     (startContext (amplifyParams None (Some ''vim'') None False)) existingProject)))"
  by (simp add: fixture_defs module_defs proc_defs)

theorem stored_editor_wins_witness:
  "EditorSelection \<notin> set (snd (analyzeProject sampleHelpers
      (startContext (amplifyParams None (Some ''vim'') None False)) existingProject)) \<and>
   map_option le_defaultEditor (exe_localEnvInfo (exeInfo (projr (fst (analyzeProject sampleHelpers
      (startContext (amplifyParams None (Some ''vim'') None False)) existingProject))))) =
     Some (Some ''intellij'')"
  using stored_editor_wins [of existingProject
      "\<lparr>le_projectPath = Some ''/home/me/shop'', le_defaultEditor = Some ''intellij'',
        le_envName = Some ''dev''\<rparr>" "''intellij''" sampleHelpers
      "startContext (amplifyParams None (Some ''vim'') None False)"
      "projr (fst (analyzeProject sampleHelpers
         (startContext (amplifyParams None (Some ''vim'') None False)) existingProject))"]
    run_existing_interactive_editor
  by (simp add: existingProject_def)

subsection \<open>The source environment\<close>

text \<open>
  C6. A run of \<open>analyzeProject\<close> never fails on a missing file. In the context it
  returns, \<open>sourceEnvName\<close> is the \<open>envName\<close> of the persisted local environment
  info when the environment is new, the project is not new and that info exists; in
  every other case (the info is missing, the environment is not new, or the project is
  new) \<open>sourceEnvName\<close> is what it was in the context given.
\<close>

theorem source_env_carry_over:
  "fst (analyzeProject H ctx w) \<noteq> Inl NotFoundError \<and>
   fst (analyzeProject H ctx w) \<noteq> Inl TypeError \<and>
   (fst (analyzeProject H ctx w) = Inr ctx' \<longrightarrow>
      exe_sourceEnvName (exeInfo ctx') =
        (if exe_isNewEnv (exeInfo ctx') = Some True \<and> exe_isNewProject (exeInfo ctx') = Some False
         then (case localEnvInfoFile w of
                 Some info \<Rightarrow> le_envName info
               | None \<Rightarrow> exe_sourceEnvName (exeInfo ctx))
         else exe_sourceEnvName (exeInfo ctx)))"
proof (intro conjI impI)
  show "fst (analyzeProject H ctx w) \<noteq> Inl NotFoundError"
    using analyzeProject_fails [of H ctx w NotFoundError] by auto
  show "fst (analyzeProject H ctx w) \<noteq> Inl TypeError"
    using analyzeProject_fails [of H ctx w TypeError] by auto
  assume r: "fst (analyzeProject H ctx w) = Inr ctx'"
  from analyzeProject_returns [OF r] obtain name env ed ctx3 where
    o: "carryOver ((setIsNewProject ctx w)\<lparr>exeInfo := (exeInfo (setIsNewProject ctx w))
                    \<lparr>exe_isNewEnv := Some (\<not> knownEnv w env),
                     exe_forcePush := Some (opt_forcePush (parameters_options ctx))\<rparr>\<rparr>) w = Inr ctx3" and
    c: "ctx' = setExeInfo (setProjectConfig H ctx3 w name) (cwd w) ed (Some env)"
    by blast
  from o show "exe_sourceEnvName (exeInfo ctx') =
        (if exe_isNewEnv (exeInfo ctx') = Some True \<and> exe_isNewProject (exeInfo ctx') = Some False
         then (case localEnvInfoFile w of
                 Some info \<Rightarrow> le_envName info
               | None \<Rightarrow> exe_sourceEnvName (exeInfo ctx))
         else exe_sourceEnvName (exeInfo ctx))"
    unfolding c carryOver_eq
    by (auto simp add: setExeInfo_def setProjectConfig_def setIsNewProject_def
        split: if_splits option.splits)
qed

lemma run_existing_new_env:
  "fst (analyzeProject sampleHelpers (startContext (noParams False)) existingProject) =
   Inr (projr (fst (analyzeProject sampleHelpers (startContext (noParams False)) existingProject)))"
  by (simp add: fixture_defs module_defs proc_defs)

lemma run_without_local_info:
  "fst (analyzeProject sampleHelpers (startContext (noParams False)) projectWithoutLocalInfo) =
   Inr (projr (fst (analyzeProject sampleHelpers (startContext (noParams False))
     projectWithoutLocalInfo)))"
  by (simp add: fixture_defs module_defs proc_defs projectWithoutLocalInfo_def)

theorem source_env_carry_over_witness:
  "exe_sourceEnvName (exeInfo (projr (fst
     (analyzeProject sampleHelpers (startContext (noParams False)) existingProject)))) = Some ''dev'' \<and>
   exe_isNewEnv (exeInfo (projr (fst
     (analyzeProject sampleHelpers (startContext (noParams False)) existingProject)))) = Some True \<and>
   exe_sourceEnvName (exeInfo (projr (fst
     (analyzeProject sampleHelpers (startContext (noParams False)) projectWithoutLocalInfo)))) = None \<and>
   exe_isNewEnv (exeInfo (projr (fst
     (analyzeProject sampleHelpers (startContext (noParams False)) projectWithoutLocalInfo)))) = Some True"
proof -
  have a: "exe_isNewEnv (exeInfo (projr (fst
     (analyzeProject sampleHelpers (startContext (noParams False)) existingProject)))) = Some True"
    "exe_isNewProject (exeInfo (projr (fst
     (analyzeProject sampleHelpers (startContext (noParams False)) existingProject)))) = Some False"
    by (simp_all add: fixture_defs module_defs proc_defs)
  have b: "exe_isNewEnv (exeInfo (projr (fst
     (analyzeProject sampleHelpers (startContext (noParams False)) projectWithoutLocalInfo)))) = Some True"
    "exe_isNewProject (exeInfo (projr (fst
     (analyzeProject sampleHelpers (startContext (noParams False)) projectWithoutLocalInfo)))) = Some False"
    by (simp_all add: fixture_defs module_defs proc_defs projectWithoutLocalInfo_def)
  show ?thesis
    using
      source_env_carry_over [of sampleHelpers "startContext (noParams False)" existingProject
        "projr (fst (analyzeProject sampleHelpers (startContext (noParams False)) existingProject))"]
      source_env_carry_over [of sampleHelpers "startContext (noParams False)" projectWithoutLocalInfo
        "projr (fst (analyzeProject sampleHelpers (startContext (noParams False))
           projectWithoutLocalInfo))"]
      run_existing_new_env run_without_local_info a b
    by (simp add: existingProject_def projectWithoutLocalInfo_def startContext_def)
qed

subsection \<open>The default of the environment-name question\<close>

text \<open>
  C7. Every environment-name question that \<open>getEnvName\<close> asks offers the default
  \<open>dev\<close> exactly when the project is new or \<open>dev\<close> is not among
  \<open>getAllEnvs()\<close>; otherwise it offers no default.
\<close>

theorem new_env_prompt_default:
  assumes "Prompt (InputQuestion n m d EnvNameRule) \<in> set (snd (getEnvName ctx w))"
  shows "(d = Some ''dev'' \<longleftrightarrow> isNewProject w \<or> ''dev'' \<notin> set (allEnvs w)) \<and>
    (d \<noteq> Some ''dev'' \<longrightarrow> d = None)"
  using assms
  by (auto simp add: getEnvName_def envNameFromParams_def envNameFromPrompts_def newEnvQuestion_def
      getDefaultEnv_def Let_def proc_defs snd_andThen split: if_splits option.splits sum.splits)

theorem new_env_prompt_default_witness:
  "Prompt (InputQuestion ''envName'' ''Enter a name for the environment'' None EnvNameRule)
     \<in> set (snd (getEnvName (startContext (noParams False)) existingProject)) \<and>
   \<not> isNewProject existingProject \<and> ''dev'' \<in> set (allEnvs existingProject) \<and>
   Prompt (InputQuestion ''envName'' ''Enter a name for the environment'' (Some ''dev'') EnvNameRule)
     \<in> set (snd (getEnvName (startContext (noParams False)) emptyDirectory)) \<and>
   isNewProject emptyDirectory"
proof -
  have a: "Prompt (InputQuestion ''envName'' ''Enter a name for the environment'' None EnvNameRule)
     \<in> set (snd (getEnvName (startContext (noParams False)) existingProject))"
    by (simp add: fixture_defs module_defs proc_defs)
  have b: "Prompt (InputQuestion ''envName'' ''Enter a name for the environment'' (Some ''dev'') EnvNameRule)
     \<in> set (snd (getEnvName (startContext (noParams False)) emptyDirectory))"
    by (simp add: fixture_defs module_defs proc_defs)
  show ?thesis
    using new_env_prompt_default [OF a] new_env_prompt_default [OF b] a b
    by (simp add: existingProject_def emptyDirectory_def isNewProject_def)
qed

subsection \<open>The order of the resolvers\<close>

lemma getEnvName_confirm:
  "ConfirmPrompt m \<in> set (snd (getEnvName c w)) \<longleftrightarrow>
     m = ''Do you want to use an existing environment?'' \<and> \<not> isNewProject w \<and> allEnvs w \<noteq> [] \<and>
     \<not> truthy (amplifyParam ap_envName (exe_inputParams (exeInfo c))) \<and>
     \<not> ip_yes (exe_inputParams (exeInfo c))"
  by (auto simp add: getEnvName_def envNameFromParams_def envNameFromPrompts_def newEnvQuestion_def
      truthy_def Let_def proc_defs snd_andThen split: if_splits option.splits sum.splits)

lemma getEnvName_list:
  "Prompt (ListQuestion n m cs) \<in> set (snd (getEnvName c w)) \<longleftrightarrow>
     n = ''envName'' \<and> m = ''Choose the environment you would like to use:'' \<and> cs = allEnvs w \<and>
     \<not> isNewProject w \<and> allEnvs w \<noteq> [] \<and>
     answerConfirm w ''Do you want to use an existing environment?'' \<and>
     \<not> truthy (amplifyParam ap_envName (exe_inputParams (exeInfo c))) \<and>
     \<not> ip_yes (exe_inputParams (exeInfo c))"
  by (auto simp add: getEnvName_def envNameFromParams_def envNameFromPrompts_def newEnvQuestion_def
      truthy_def Let_def proc_defs snd_andThen split: if_splits option.splits sum.splits)

lemma analyzeProject_env_events:
  assumes "resolverOf e = Environment"
  shows "e \<in> set (snd (analyzeProject H ctx w)) \<longleftrightarrow> e \<in> set (snd (getEnvName (setIsNewProject ctx w) w))"
proof -
  obtain n where n: "fst (getProjectName H (setIsNewProject ctx w) w) = Inr n"
    using getProjectName_returns by blast
  have "e \<notin> set (advisory ctx)"
    using advisory_resolver [of e ctx] assms by auto
  moreover have "e \<notin> set (snd (getProjectName H (setIsNewProject ctx w) w))"
    using getProjectName_resolver [of e] assms by auto
  moreover have "e \<notin> set (snd (getEditor H (setIsNewProject ctx w) w))"
    using getEditor_resolver [of e] assms by auto
  ultimately show ?thesis
    unfolding analyzeProject_trace by (auto simp add: n split: sum.splits)
qed

text \<open>
  C8, as amended. In every run of \<open>analyzeProject\<close> the events come in the order
  advisory warning, project name, environment name, editor: the environment name is
  resolved before the editor, not after it. The environment resolver branches on the
  new-project check that set the flag of the first step. When that flag is true, the
  question whether to use an existing environment is never asked. When it is false, the
  run is interactive without an environment-name parameter and there are known
  environments, that question is asked, and the list of the known environments is
  offered when the user agrees. The context returned is assembled last, from the name
  that \<open>getProjectName\<close> returned and the one that \<open>getEnvName\<close> returned, and its
  new-project flag is that of the first step.
\<close>

theorem resolution_order:
  "sorted (map (\<lambda>e. codeOrder (resolverOf e)) (snd (analyzeProject H ctx w))) \<and>
   (exe_isNewProject (exeInfo (setIsNewProject ctx w)) = Some True \<longrightarrow>
      (\<forall>m. ConfirmPrompt m \<notin> set (snd (analyzeProject H ctx w)))) \<and>
   (exe_isNewProject (exeInfo (setIsNewProject ctx w)) = Some False \<and>
    \<not> truthy (amplifyParam ap_envName (exe_inputParams (exeInfo ctx))) \<and>
    \<not> ip_yes (exe_inputParams (exeInfo ctx)) \<and> allEnvs w \<noteq> [] \<longrightarrow>
      ConfirmPrompt ''Do you want to use an existing environment?''
        \<in> set (snd (analyzeProject H ctx w)) \<and>
      (answerConfirm w ''Do you want to use an existing environment?'' \<longrightarrow>
         Prompt (ListQuestion ''envName'' ''Choose the environment you would like to use:''
                   (allEnvs w)) \<in> set (snd (analyzeProject H ctx w)))) \<and>
   (fst (analyzeProject H ctx w) = Inr ctx' \<longrightarrow>
      (\<exists>name env.
         fst (getProjectName H (setIsNewProject ctx w) w) = Inr name \<and>
         fst (getEnvName (setIsNewProject ctx w) w) = Inr env \<and>
         map_option pc_projectName (exe_projectConfig (exeInfo ctx')) = Some name \<and>
         map_option le_envName (exe_localEnvInfo (exeInfo ctx')) = Some (Some env) \<and>
         exe_isNewProject (exeInfo ctx') = exe_isNewProject (exeInfo (setIsNewProject ctx w))))"
proof (intro conjI impI allI)
  let ?c = "setIsNewProject ctx w"
  let ?r = "\<lambda>e. codeOrder (resolverOf e)"
  have a: "\<And>e. e \<in> set (advisory ctx) \<Longrightarrow> ?r e = 0"
    by (simp add: advisory_resolver codeOrder_def)
  have p: "\<And>e. e \<in> set (snd (getProjectName H ?c w)) \<Longrightarrow> ?r e = 1"
    by (simp add: getProjectName_resolver codeOrder_def)
  have n: "\<And>e. e \<in> set (snd (getEnvName ?c w)) \<Longrightarrow> ?r e = 2"
    by (simp add: getEnvName_resolver codeOrder_def)
  have d: "\<And>e. e \<in> set (snd (getEditor H ?c w)) \<Longrightarrow> ?r e = 3"
    by (simp add: getEditor_resolver codeOrder_def)
  note s = sorted_const [of _ ?r, OF a] sorted_const [of _ ?r, OF p] sorted_const [of _ ?r, OF n]
    sorted_const [of _ ?r, OF d]
  show "sorted (map ?r (snd (analyzeProject H ctx w)))"
    unfolding analyzeProject_trace
    by (auto simp add: sorted_append s a p n d split: sum.splits)
next
  fix m
  assume "exe_isNewProject (exeInfo (setIsNewProject ctx w)) = Some True"
  then have new: "isNewProject w"
    by (simp add: setIsNewProject_def)
  have "resolverOf (ConfirmPrompt m) = Environment"
    by (simp add: resolverOf_def)
  from analyzeProject_env_events [OF this] new
  show "ConfirmPrompt m \<notin> set (snd (analyzeProject H ctx w))"
    by (simp add: getEnvName_confirm)
next
  assume h: "exe_isNewProject (exeInfo (setIsNewProject ctx w)) = Some False \<and>
    \<not> truthy (amplifyParam ap_envName (exe_inputParams (exeInfo ctx))) \<and>
    \<not> ip_yes (exe_inputParams (exeInfo ctx)) \<and> allEnvs w \<noteq> []"
  then have old: "\<not> isNewProject w"
    by (simp add: setIsNewProject_def)
  have i: "exe_inputParams (exeInfo (setIsNewProject ctx w)) = exe_inputParams (exeInfo ctx)"
    by (simp add: setIsNewProject_def)
  have "resolverOf (ConfirmPrompt ''Do you want to use an existing environment?'') = Environment"
    by (simp add: resolverOf_def)
  from analyzeProject_env_events [OF this] h old
  show "ConfirmPrompt ''Do you want to use an existing environment?''
        \<in> set (snd (analyzeProject H ctx w))"
    by (simp add: getEnvName_confirm i)
  assume y: "answerConfirm w ''Do you want to use an existing environment?''"
  have "resolverOf (Prompt (ListQuestion ''envName''
      ''Choose the environment you would like to use:'' (allEnvs w))) = Environment"
    by (simp add: resolverOf_def)
  from analyzeProject_env_events [OF this] h old y
  show "Prompt (ListQuestion ''envName'' ''Choose the environment you would like to use:''
                   (allEnvs w)) \<in> set (snd (analyzeProject H ctx w))"
    by (simp add: getEnvName_list i)
next
  assume r: "fst (analyzeProject H ctx w) = Inr ctx'"
  from analyzeProject_returns [OF r] obtain name env ed ctx3 where
    n: "fst (getProjectName H (setIsNewProject ctx w) w) = Inr name" and
    e: "fst (getEnvName (setIsNewProject ctx w) w) = Inr env" and
    c: "ctx' = setExeInfo (setProjectConfig H ctx3 w name) (cwd w) ed (Some env)"
    by blast
  have "map_option pc_projectName (exe_projectConfig (exeInfo ctx')) = Some name \<and>
         map_option le_envName (exe_localEnvInfo (exeInfo ctx')) = Some (Some env) \<and>
         exe_isNewProject (exeInfo ctx') = exe_isNewProject (exeInfo (setIsNewProject ctx w))"
    by (simp add: c setExeInfo_def setProjectConfig_def setIsNewProject_def)
  with n e show "\<exists>name env.
         fst (getProjectName H (setIsNewProject ctx w) w) = Inr name \<and>
         fst (getEnvName (setIsNewProject ctx w) w) = Inr env \<and>
         map_option pc_projectName (exe_projectConfig (exeInfo ctx')) = Some name \<and>
         map_option le_envName (exe_localEnvInfo (exeInfo ctx')) = Some (Some env) \<and>
         exe_isNewProject (exeInfo ctx') = exe_isNewProject (exeInfo (setIsNewProject ctx w))"
    by blast
qed

lemma run_new_interactive:
  "fst (analyzeProject sampleHelpers (startContext (noParams False)) emptyDirectory) =
   Inr (projr (fst (analyzeProject sampleHelpers (startContext (noParams False)) emptyDirectory)))"
  by (simp add: fixture_defs module_defs proc_defs)

theorem resolution_order_witness:
  "sorted (map (\<lambda>e. codeOrder (resolverOf e))
     (snd (analyzeProject sampleHelpers (startContext (noParams False)) emptyDirectory))) \<and>
   exe_isNewProject (exeInfo (setIsNewProject (startContext (noParams False)) emptyDirectory)) =
     Some True \<and>
   ConfirmPrompt ''Do you want to use an existing environment?''
     \<notin> set (snd (analyzeProject sampleHelpers (startContext (noParams False)) emptyDirectory)) \<and>
   exe_isNewProject (exeInfo (projr (fst
     (analyzeProject sampleHelpers (startContext (noParams False)) emptyDirectory)))) = Some True \<and>
   exe_isNewProject (exeInfo (setIsNewProject (startContext (noParams False)) existingProject)) =
     Some False \<and>
   ConfirmPrompt ''Do you want to use an existing environment?''
     \<in> set (snd (analyzeProject sampleHelpers (startContext (noParams False)) existingProject)) \<and>
   Prompt (ListQuestion ''envName'' ''Choose the environment you would like to use:'' [''dev''])
     \<in> set (snd (analyzeProject sampleHelpers (startContext (noParams False))
          (existingProject\<lparr>answerConfirm := (\<lambda>m. True)\<rparr>)))"
proof -
  have f: "exe_isNewProject (exeInfo (setIsNewProject (startContext (noParams False)) emptyDirectory)) =
     Some True"
    by (simp add: fixture_defs module_defs)
  have g: "exe_isNewProject (exeInfo (setIsNewProject (startContext (noParams False)) existingProject)) =
     Some False"
    "exe_isNewProject (exeInfo (setIsNewProject (startContext (noParams False))
       (existingProject\<lparr>answerConfirm := (\<lambda>m. True)\<rparr>))) = Some False"
    by (simp_all add: fixture_defs module_defs)
  have i: "\<not> truthy (amplifyParam ap_envName (exe_inputParams (exeInfo (startContext (noParams False)))))"
    "\<not> ip_yes (exe_inputParams (exeInfo (startContext (noParams False))))"
    by (simp_all add: fixture_defs module_defs)
  have l: "allEnvs existingProject = [''dev'']"
    "allEnvs (existingProject\<lparr>answerConfirm := (\<lambda>m. True)\<rparr>) = [''dev'']"
    "answerConfirm (existingProject\<lparr>answerConfirm := (\<lambda>m. True)\<rparr>)
       ''Do you want to use an existing environment?''"
    by (simp_all add: existingProject_def)
  note ro = resolution_order [of sampleHelpers "startContext (noParams False)" emptyDirectory
        "projr (fst (analyzeProject sampleHelpers (startContext (noParams False)) emptyDirectory))"]
  note rx = resolution_order [of sampleHelpers "startContext (noParams False)" existingProject
        "startContext (noParams False)"]
  note ry = resolution_order [of sampleHelpers "startContext (noParams False)"
        "existingProject\<lparr>answerConfirm := (\<lambda>m. True)\<rparr>" "startContext (noParams False)"]
  from ro have s: "sorted (map (\<lambda>e. codeOrder (resolverOf e))
     (snd (analyzeProject sampleHelpers (startContext (noParams False)) emptyDirectory)))"
    by blast
  from ro f have c: "ConfirmPrompt ''Do you want to use an existing environment?''
     \<notin> set (snd (analyzeProject sampleHelpers (startContext (noParams False)) emptyDirectory))"
    by blast
  from ro run_new_interactive have n: "exe_isNewProject (exeInfo (projr (fst
     (analyzeProject sampleHelpers (startContext (noParams False)) emptyDirectory)))) =
     exe_isNewProject (exeInfo (setIsNewProject (startContext (noParams False)) emptyDirectory))"
    by blast
  from rx g(1) i l(1) have x: "ConfirmPrompt ''Do you want to use an existing environment?''
     \<in> set (snd (analyzeProject sampleHelpers (startContext (noParams False)) existingProject))"
    by simp
  from ry g(2) i l(2,3) have y:
    "Prompt (ListQuestion ''envName'' ''Choose the environment you would like to use:'' [''dev''])
     \<in> set (snd (analyzeProject sampleHelpers (startContext (noParams False))
          (existingProject\<lparr>answerConfirm := (\<lambda>m. True)\<rparr>)))"
    by simp
  from s c n f g(1) x y show ?thesis
    by simp
qed

text \<open>
  C8 as stated fails on an interactive run in a directory without any Amplify file: the
  environment-name question is asked before the editor is selected, so the events are
  not in the order project identity, editor, environment.
\<close>

theorem editor_before_environment_counterexample:
  "snd (analyzeProject sampleHelpers (startContext (noParams False)) emptyDirectory) =
     [PrintWarning ''Note: It is recommended to run this command from the root of your app directory'',
      Prompt (InputQuestion ''inputProjectName'' ''Enter a name for the project''
                (Some ''shop'') ProjectNameRule),
      Prompt (InputQuestion ''envName'' ''Enter a name for the environment''
                (Some ''dev'') EnvNameRule),
      EditorSelection] \<and>
   \<not> sorted (map (\<lambda>e. claimedOrder (resolverOf e))
       (snd (analyzeProject sampleHelpers (startContext (noParams False)) emptyDirectory)))"
  by (simp add: fixture_defs module_defs proc_defs resolverOf_def claimedOrder_def)

subsection \<open>A project name given as a parameter\<close>





subsection \<open>The headless fast path\<close>

text \<open>
  C10. When the project config file exists and \<open>dev\<close> is among \<open>getAllEnvs()\<close>,
  \<open>analyzeProjectHeadless\<close> returns a context whose \<open>localEnvInfo\<close> has no
  \<open>envName\<close> and whose \<open>projectName\<close> is the base name of the working directory as
  it is. The only event there can be is the warning about the frontend: no error is
  printed, no usage error is emitted, the process is not ended, nothing is asked.
\<close>

theorem headless_existing_dev:
  assumes "projectConfigFile w \<noteq> None" and "''dev'' \<in> set (allEnvs w)"
  shows "\<exists>ctx'. analyzeProjectHeadless H ctx w =
       (Inr ctx',
        if truthy (opt_frontend (parameters_options ctx)) then []
        else [PrintWarning ''No frontend specified. Defaulting to android.'']) \<and>
     map_option le_envName (exe_localEnvInfo (exeInfo ctx')) = Some None \<and>
     map_option pc_projectName (exe_projectConfig (exeInfo ctx')) = Some (basename (cwd w))"
  using assms
  by (auto simp add: analyzeProjectHeadless_def getDefaultEnv_def isNewProject_def setExeInfo_def
      setProjectConfig_def setIsNewProject_def setFrontend_def truthy_def Let_def proc_defs
      split: option.splits)

theorem headless_existing_dev_witness:
  "\<exists>ctx'. analyzeProjectHeadless sampleHelpers (startContext (noParams True))
       (existingProject\<lparr>cwd := ''/home/me/my shop!''\<rparr>) =
       (Inr ctx', [PrintWarning ''No frontend specified. Defaulting to android.'']) \<and>
     map_option le_envName (exe_localEnvInfo (exeInfo ctx')) = Some None \<and>
     map_option pc_projectName (exe_projectConfig (exeInfo ctx')) = Some ''my shop!''"
  using headless_existing_dev [of "existingProject\<lparr>cwd := ''/home/me/my shop!''\<rparr>"
      sampleHelpers "startContext (noParams True)"]
  by (simp add: fixture_defs basename_def truthy_def truthyValue_def)

end
